theory Spec2Isabelle
  imports Main "HOL-Library.Word" "HOL-Library.Sublist"
begin

section \<open>Resource upload of the charm store client\<close>

text \<open>
  A shallow embedding of \<^verbatim>\<open>uploadFileResource\<close>, \<^verbatim>\<open>uploadDockerResource\<close>,
  \<^verbatim>\<open>uploadExternalDockerResource\<close>, \<^verbatim>\<open>imageDigestForReference\<close> and
  \<^verbatim>\<open>readSeekerSHA256\<close> of package \<^verbatim>\<open>charmcmd\<close>.

  The functions talk to four collaborators that are not part of the package source: the
  local file system, the upload-identifier cache, the charm store client and the docker
  registry. What each of their calls answers is taken from a record of answers (a
  \<^emph>\<open>world\<close>), so that every theorem holds for all behaviours of the collaborators, and
  every call that the code makes is appended to a trace of events, in program order.
\<close>

subsection \<open>Data\<close>

type_synonym byte = "8 word"
type_synonym charm_url = string

text \<open>\<^verbatim>\<open>uploadResourceParams\<close>, without the command context and the client handle.\<close>

datatype resource_type = TypeFile | TypeDocker | TypeOther string

record uploadResourceParams =
  meta_Resources :: "string \<rightharpoonup> resource_type"
  charmId :: charm_url
  resourceName :: string
  reference :: string
  cachePath :: string

text \<open>The two causes that the code tells apart in an error of the store client.\<close>

datatype store_error = ErrUploadNotFound | StoreFailure

datatype error =
    OpenFailed
  | StatFailed
  | ReadFailed
  | SeekFailed
  | CacheLookupFailed
  | CantUploadResource store_error
  | NoSuchResource string
  | UnsupportedResourceType string
  | InvalidImageName string
  | CannotGetUploadInfo
  | CannotMakeDockerClient
  | CannotTagImage
  | MarshalFailed
  | CannotPushImage
  | FailedToUpload
  | NoDigestInUploadResponse
  | CannotAddDockerResource
  | CannotGetRegistryAuthorization
  | RegistryRequestFailed
  | CannotGetInformation nat
  | IncompatibleRegistryVersion string
  | NoDigestInResponse
  | CannotVerifyImageDigest nat
  | Panic

text \<open>Every call to a collaborator, and every message logged or shown, is an event.\<close>

datatype event =
    EvOpen string
  | EvStat
  | EvNewUploadIdCache string nat
  | EvRemoveExpiredEntries
  | EvReadSeekerSHA256
  | EvLookup charm_url string "byte list"
  | EvUpdate string charm_url string "byte list"
  | EvRemove charm_url string "byte list"
  | EvWarning string
  | EvLogError string
  | EvInfo string
  | EvDisplayError string
  | EvResumeUploadResource string
  | EvUploadResource
  | EvTransferDone "store_error + int"
  | EvHttpGet string
  | EvDockerRegistryDo string string
  | EvDockerResourceUploadInfo charm_url string
  | EvNewEnvClient
  | EvImageTag string string
  | EvImagePush string
  | EvDisplayJSONMessagesStream
  | EvAddDockerResource charm_url string string string

subsection \<open>The content hasher\<close>

text \<open>
  An \<^verbatim>\<open>io.ReadSeeker\<close>: the bytes, the read position, the offset at which a read
  fails (if any) and whether seeking fails.
\<close>

record read_seeker =
  rs_data :: "byte list"
  rs_pos :: nat
  rs_read_fault :: "nat option"
  rs_seek_fault :: bool

text \<open>
  \<^verbatim>\<open>io.Copy(hasher, r)\<close>: reads from the current position up to the end of the data and
  hands the bytes to the hasher; a read that reaches the faulty offset fails, and the
  position stays where the reads stopped.
\<close>

definition io_Copy :: "read_seeker \<Rightarrow> (error + unit) \<times> byte list \<times> read_seeker" where
  "io_Copy r =
     (let n = length (rs_data r); p = rs_pos r in
      case rs_read_fault r of
        Some k \<Rightarrow>
          if p \<le> k \<and> k \<le> n
          then (Inl ReadFailed, take (k - p) (drop p (rs_data r)), r\<lparr>rs_pos := k\<rparr>)
          else (Inr (), drop p (rs_data r), r\<lparr>rs_pos := max p n\<rparr>)
      | None \<Rightarrow> (Inr (), drop p (rs_data r), r\<lparr>rs_pos := max p n\<rparr>))"

text \<open>\<^verbatim>\<open>r.Seek(0, 0)\<close>.\<close>

definition seek_start :: "read_seeker \<Rightarrow> (error + unit) \<times> read_seeker" where
  "seek_start r = (if rs_seek_fault r then (Inl SeekFailed, r) else (Inr (), r\<lparr>rs_pos := 0\<rparr>))"

text \<open>
  \<^verbatim>\<open>readSeekerSHA256\<close>. The hash function of \<^verbatim>\<open>crypto/sha256\<close> is the parameter
  \<open>H\<close>. The result is the error or the checksum, and the reader as the call leaves it.
\<close>

definition readSeekerSHA256 ::
  "(byte list \<Rightarrow> byte list) \<Rightarrow> read_seeker \<Rightarrow> (error + byte list) \<times> read_seeker" where
  "readSeekerSHA256 H r =
     (case io_Copy r of
        (Inl e, _, r1) \<Rightarrow> (Inl e, r1)
      | (Inr _, written, r1) \<Rightarrow>
          (case seek_start r1 of
             (Inl e, r2) \<Rightarrow> (Inl e, r2)
           | (Inr _, r2) \<Rightarrow> (Inr (H written), r2)))"

subsection \<open>Uploading a file resource\<close>

record UploadIdCacheEntry =
  UploadId :: string

datatype lookup_result = Found UploadIdCacheEntry | CacheEntryNotFound | LookupFailure

text \<open>
  What one call of \<^verbatim>\<open>ResumeUploadResource\<close> or \<^verbatim>\<open>UploadResource\<close> does: the upload
  identifiers that the store assigns during the call (each is passed to the callback of
  the progress display as soon as it is assigned), and what the call returns.
\<close>

record transfer =
  t_started :: "string list"
  t_result :: "store_error + int"

record file_world =
  w_AbsPath :: "string \<Rightarrow> string"
  w_Open :: "string \<Rightarrow> read_seeker option"
  w_Stat :: "int option"
  w_sha256 :: "byte list \<Rightarrow> byte list"
  w_RemoveExpiredEntries_fails :: bool
  w_Lookup :: "charm_url \<Rightarrow> string \<Rightarrow> byte list \<Rightarrow> lookup_result"
  w_Update_fails :: "string \<Rightarrow> bool"
  w_Remove_fails :: bool
  w_ResumeUploadResource :: "string \<Rightarrow> transfer"
  w_UploadResource :: transfer

text \<open>\<^verbatim>\<open>uploadIdCacheExpiryDuration\<close>, in hours.\<close>

definition uploadIdCacheExpiryDuration :: nat where
  "uploadIdCacheExpiryDuration = 48"

text \<open>
  The three variables that the cache branch sets: whether \<^verbatim>\<open>uploadIdCache\<close> is non-nil,
  \<^verbatim>\<open>contentHash\<close> (nil is the empty list) and \<^verbatim>\<open>uploadId\<close>.
\<close>

record cache_vars =
  cv_cache :: bool
  cv_contentHash :: "byte list"
  cv_uploadId :: string

text \<open>Lines 78 to 98: the branch taken when a cache path is configured.\<close>

definition cache_branch ::
  "file_world \<Rightarrow> uploadResourceParams \<Rightarrow> read_seeker \<Rightarrow> (error + cache_vars) \<times> event list" where
  "cache_branch w p f =
     (if cachePath p \<noteq> []
      then
        (let ev1 = [EvNewUploadIdCache (cachePath p) uploadIdCacheExpiryDuration,
                    EvRemoveExpiredEntries]
                   @ (if w_RemoveExpiredEntries_fails w
                      then [EvWarning ''cannot remove expired uploadId cache entries'']
                      else [])
                   @ [EvReadSeekerSHA256]
         in case fst (readSeekerSHA256 (w_sha256 w) f) of
              Inl e \<Rightarrow> (Inl e, ev1)
            | Inr h \<Rightarrow>
                (let ev2 = ev1 @ [EvLookup (charmId p) (resourceName p) h]
                 in case w_Lookup w (charmId p) (resourceName p) h of
                      Found entry \<Rightarrow>
                        (Inr \<lparr>cv_cache = True, cv_contentHash = h, cv_uploadId = UploadId entry\<rparr>,
                         ev2 @ [EvInfo ''resuming previous upload''])
                    | CacheEntryNotFound \<Rightarrow>
                        (Inr \<lparr>cv_cache = True, cv_contentHash = h, cv_uploadId = []\<rparr>, ev2)
                    | LookupFailure \<Rightarrow> (Inl CacheLookupFailed, ev2)))
      else (Inr \<lparr>cv_cache = False, cv_contentHash = [], cv_uploadId = []\<rparr>, []))"

text \<open>Lines 99 to 106: the callback given to the progress display.\<close>

definition setUploadId ::
  "file_world \<Rightarrow> uploadResourceParams \<Rightarrow> cache_vars \<Rightarrow> string \<Rightarrow> event list" where
  "setUploadId w p cv uploadId =
     (if \<not> cv_cache cv then []
      else EvUpdate uploadId (charmId p) (resourceName p) (cv_contentHash cv)
           # (if w_Update_fails w uploadId
              then [EvLogError ''cannot update uploadId cache'']
              else []))"

text \<open>The events of one call to the store: the call, the callbacks, the answer.\<close>

definition transfer_events ::
  "file_world \<Rightarrow> uploadResourceParams \<Rightarrow> cache_vars \<Rightarrow> event \<Rightarrow> transfer \<Rightarrow> event list" where
  "transfer_events w p cv call t =
     call # concat (map (setUploadId w p cv) (t_started t)) @ [EvTransferDone (t_result t)]"

text \<open>Lines 111 to 120: the resume attempt and the restart.\<close>

definition upload_attempts ::
  "file_world \<Rightarrow> uploadResourceParams \<Rightarrow> cache_vars \<Rightarrow> (error + int) \<times> event list" where
  "upload_attempts w p cv =
     (let t1 = w_ResumeUploadResource w (cv_uploadId cv);
          ev1 = transfer_events w p cv (EvResumeUploadResource (cv_uploadId cv)) t1
      in case t_result t1 of
           Inr revno \<Rightarrow> (Inr revno, ev1)
         | Inl err \<Rightarrow>
             if err = ErrUploadNotFound
             then
               (let t2 = w_UploadResource w;
                    ev2 = ev1
                          @ [EvDisplayError ''previous upload seems to have expired; restarting.'']
                          @ transfer_events w p cv EvUploadResource t2
                in case t_result t2 of
                     Inr revno \<Rightarrow> (Inr revno, ev2)
                   | Inl err2 \<Rightarrow> (Inl (CantUploadResource err2), ev2))
             else (Inl (CantUploadResource err), ev1))"

text \<open>Lines 121 to 126: the entry is removed once the upload is done.\<close>

definition cache_cleanup ::
  "file_world \<Rightarrow> uploadResourceParams \<Rightarrow> cache_vars \<Rightarrow> event list" where
  "cache_cleanup w p cv =
     (if cv_cache cv
      then EvRemove (charmId p) (resourceName p) (cv_contentHash cv)
           # (if w_Remove_fails w then [EvLogError ''cannot remove uploadId cache entry''] else [])
      else [])"

text \<open>
  \<^verbatim>\<open>uploadFileResource\<close>: the revision or the error, and the trace of the call. The
  deferred \<^verbatim>\<open>f.Close\<close>, \<^verbatim>\<open>d.close\<close> and \<^verbatim>\<open>setDisplay(nil)\<close> touch neither the cache nor
  the store and leave no event.
\<close>

definition uploadFileResource ::
  "file_world \<Rightarrow> uploadResourceParams \<Rightarrow> (error + int) \<times> event list" where
  "uploadFileResource w p =
     (let filePath = w_AbsPath w (reference p) in
      case w_Open w filePath of
        None \<Rightarrow> (Inl OpenFailed, [EvOpen filePath])
      | Some f \<Rightarrow>
          (case w_Stat w of
             None \<Rightarrow> (Inl StatFailed, [EvOpen filePath, EvStat])
           | Some sz \<Rightarrow>
               (case cache_branch w p f of
                  (Inl e, ev1) \<Rightarrow> (Inl e, [EvOpen filePath, EvStat] @ ev1)
                | (Inr cv, ev1) \<Rightarrow>
                    (case upload_attempts w p cv of
                       (Inl e, ev2) \<Rightarrow> (Inl e, [EvOpen filePath, EvStat] @ ev1 @ ev2)
                     | (Inr revno, ev2) \<Rightarrow>
                         (Inr revno,
                          [EvOpen filePath, EvStat] @ ev1 @ ev2 @ cache_cleanup w p cv)))))"

subsection \<open>Resolving the digest of an image\<close>

text \<open>
  A \<^verbatim>\<open>reference.Named\<close> of the docker distribution library: it is \<^verbatim>\<open>Tagged\<close> when it
  has a tag and \<^verbatim>\<open>Canonical\<close> when it has a digest, and may be both.
\<close>

record named_ref =
  ref_domain :: string
  ref_path :: string
  ref_tag :: "string option"
  ref_digest :: "string option"

definition ref_Name :: "named_ref \<Rightarrow> string" where
  "ref_Name r = (if ref_domain r = [] then ref_path r else ref_domain r @ ''/'' @ ref_path r)"

definition ref_String :: "named_ref \<Rightarrow> string" where
  "ref_String r =
     ref_Name r
     @ (case ref_tag r of None \<Rightarrow> [] | Some t \<Rightarrow> '':'' @ t)
     @ (case ref_digest r of None \<Rightarrow> [] | Some d \<Rightarrow> ''@'' @ d)"

text \<open>\<^verbatim>\<open>reference.TagNameOnly\<close>: a reference with neither tag nor digest gets the tag latest.\<close>

definition TagNameOnly :: "named_ref \<Rightarrow> named_ref" where
  "TagNameOnly r =
     (if ref_tag r = None \<and> ref_digest r = None then r\<lparr>ref_tag := Some ''latest''\<rparr> else r)"

text \<open>\<^verbatim>\<open>referenceTagOrDigest\<close>: the type switch tries \<^verbatim>\<open>Tagged\<close> first.\<close>

definition referenceTagOrDigest :: "named_ref \<Rightarrow> error + string" where
  "referenceTagOrDigest r =
     (case ref_tag (TagNameOnly r) of
        Some t \<Rightarrow> Inr t
      | None \<Rightarrow>
          (case ref_digest (TagNameOnly r) of
             Some d \<Rightarrow> Inr d
           | None \<Rightarrow> Inl Panic))"

definition registryEndpointForReference :: "named_ref \<Rightarrow> string" where
  "registryEndpointForReference r =
     (let h = ref_domain r;
          h = (if h = ''docker.io'' then ''registry-1.docker.io'' else h)
      in ''https://'' @ h @ ''/v2/'')"

text \<open>An HTTP response: the status code and the headers.\<close>

record http_response =
  resp_StatusCode :: nat
  resp_Header :: "string \<rightharpoonup> string"

definition Header_Get :: "http_response \<Rightarrow> string \<Rightarrow> string" where
  "Header_Get resp k = (case resp_Header resp k of None \<Rightarrow> [] | Some v \<Rightarrow> v)"

record DockerResourceUploadInfoResponse =
  ImageName :: string
  Username :: string
  Password :: string

text \<open>
  The answers of the reference parser, the registry, the local docker daemon and the
  store. \<open>d_Do n url\<close> is the answer to the \<open>n\<close>-th request that \<^verbatim>\<open>dockerRegistryDo\<close>
  makes during the call (\<open>None\<close> when building, authorizing or sending it fails).
\<close>

record docker_world =
  d_ParseNormalizedNamed :: "string \<Rightarrow> named_ref option"
  d_http_Get_fails :: "string \<Rightarrow> bool"
  d_Do :: "nat \<Rightarrow> string \<Rightarrow> http_response option"
  d_DockerResourceUploadInfo :: "DockerResourceUploadInfoResponse option"
  d_NewEnvClient_fails :: bool
  d_ImageTag_fails :: bool
  d_Marshal_fails :: bool
  d_ImagePush_fails :: bool
  d_DisplayJSONMessagesStream :: "bool \<times> string"
  d_AddDockerResource :: "string \<Rightarrow> string \<Rightarrow> int option"

text \<open>\<^verbatim>\<open>registryAuthorizer\<close>: one GET of the API root, whose answer carries the challenge.\<close>

definition registryAuthorizer ::
  "docker_world \<Rightarrow> string \<Rightarrow> string \<Rightarrow> (error + unit) \<times> event list" where
  "registryAuthorizer d endpoint path =
     (if d_http_Get_fails d endpoint
      then (Inl CannotGetRegistryAuthorization, [EvHttpGet endpoint])
      else (Inr (), [EvHttpGet endpoint]))"

text \<open>\<^verbatim>\<open>dockerRegistryDo\<close>, as the \<open>n\<close>-th request of the call.\<close>

definition dockerRegistryDo ::
  "docker_world \<Rightarrow> nat \<Rightarrow> string \<Rightarrow> string \<Rightarrow> (error + http_response) \<times> event list" where
  "dockerRegistryDo d n method url =
     (case d_Do d n url of
        None \<Rightarrow> (Inl RegistryRequestFailed, [EvDockerRegistryDo method url])
      | Some resp \<Rightarrow> (Inr resp, [EvDockerRegistryDo method url]))"

text \<open>Lines 228 to 237: what the answer to the first request must satisfy.\<close>

definition check_manifest_response :: "http_response \<Rightarrow> error + string" where
  "check_manifest_response resp =
     (if resp_StatusCode resp \<noteq> 200 then Inl (CannotGetInformation (resp_StatusCode resp))
      else
        (let v = Header_Get resp ''Docker-Distribution-Api-Version'' in
         if \<not> prefix ''registry/2.'' v then Inl (IncompatibleRegistryVersion v)
         else
           (let digest = Header_Get resp ''Docker-Content-Digest'' in
            if digest = [] then Inl NoDigestInResponse else Inr digest)))"

text \<open>Lines 238 to 255: a canonical reference is done; otherwise the digest is requested.\<close>

definition verify_digest ::
  "docker_world \<Rightarrow> named_ref \<Rightarrow> string \<Rightarrow> string \<Rightarrow> string \<Rightarrow> (error + string) \<times> event list"
  where
  "verify_digest d r endpoint path digest =
     (case ref_digest r of
        Some refDigest \<Rightarrow> (Inr refDigest, [])
      | None \<Rightarrow>
          (case dockerRegistryDo d 1 ''HEAD'' (endpoint @ path @ ''/manifests/'' @ digest) of
             (Inl e, ev) \<Rightarrow> (Inl e, ev)
           | (Inr resp, ev) \<Rightarrow>
               if resp_StatusCode resp \<noteq> 200
               then (Inl (CannotVerifyImageDigest (resp_StatusCode resp)), ev)
               else (Inr digest, ev)))"

definition imageDigestForReference ::
  "docker_world \<Rightarrow> named_ref \<Rightarrow> (error + string) \<times> event list" where
  "imageDigestForReference d r =
     (let endpoint = registryEndpointForReference r; path = ref_path r in
      case registryAuthorizer d endpoint path of
        (Inl e, ev0) \<Rightarrow> (Inl e, ev0)
      | (Inr _, ev0) \<Rightarrow>
          (case referenceTagOrDigest r of
             Inl e \<Rightarrow> (Inl e, ev0)
           | Inr tagOrDigest \<Rightarrow>
               (case dockerRegistryDo d 0 ''HEAD''
                       (endpoint @ path @ ''/manifests/'' @ tagOrDigest) of
                  (Inl e, ev1) \<Rightarrow> (Inl e, ev0 @ ev1)
                | (Inr resp, ev1) \<Rightarrow>
                    (case check_manifest_response resp of
                       Inl e \<Rightarrow> (Inl e, ev0 @ ev1)
                     | Inr digest \<Rightarrow>
                         (case verify_digest d r endpoint path digest of
                            (res, ev2) \<Rightarrow> (res, ev0 @ ev1 @ ev2))))))"

subsection \<open>Uploading a docker resource\<close>

definition uploadExternalDockerResource ::
  "docker_world \<Rightarrow> uploadResourceParams \<Rightarrow> named_ref \<Rightarrow> (error + int) \<times> event list" where
  "uploadExternalDockerResource d p r =
     (case imageDigestForReference d r of
        (Inl e, ev) \<Rightarrow> (Inl e, ev)
      | (Inr digest, ev) \<Rightarrow>
          (let ev' = ev @ [EvAddDockerResource (charmId p) (resourceName p) (ref_Name r) digest]
           in case d_AddDockerResource d (ref_Name r) digest of
                None \<Rightarrow> (Inl CannotAddDockerResource, ev')
              | Some revno \<Rightarrow> (Inr revno, ev')))"

text \<open>\<^verbatim>\<open>strings.TrimPrefix\<close>.\<close>

definition TrimPrefix :: "string \<Rightarrow> string \<Rightarrow> string" where
  "TrimPrefix s pre = (if prefix pre s then drop (length pre) s else s)"

text \<open>Lines 141 to 201: the image is tagged and pushed through the local docker daemon.\<close>

definition push_local_image ::
  "docker_world \<Rightarrow> uploadResourceParams \<Rightarrow> named_ref \<Rightarrow> (error + int) \<times> event list" where
  "push_local_image d p r =
     (let ev1 = [EvDockerResourceUploadInfo (charmId p) (resourceName p)] in
      case d_DockerResourceUploadInfo d of
        None \<Rightarrow> (Inl CannotGetUploadInfo, ev1)
      | Some info \<Rightarrow>
          (let ev2 = ev1 @ [EvNewEnvClient] in
           if d_NewEnvClient_fails d then (Inl CannotMakeDockerClient, ev2)
           else
             (let ev3 = ev2 @ [EvImageTag (ref_String r) (ImageName info)] in
              if d_ImageTag_fails d then (Inl CannotTagImage, ev3)
              else if d_Marshal_fails d then (Inl MarshalFailed, ev3)
              else
                (let ev4 = ev3 @ [EvImagePush (ImageName info)] in
                 if d_ImagePush_fails d then (Inl CannotPushImage, ev4)
                 else
                   (let ev5 = ev4 @ [EvDisplayJSONMessagesStream] in
                    case d_DisplayJSONMessagesStream d of
                      (True, _) \<Rightarrow> (Inl FailedToUpload, ev5)
                    | (False, digest) \<Rightarrow>
                        if digest = [] then (Inl NoDigestInUploadResponse, ev5)
                        else
                          (let ev6 = ev5 @ [EvAddDockerResource (charmId p) (resourceName p)
                                              [] digest]
                           in case d_AddDockerResource d [] digest of
                                None \<Rightarrow> (Inl CannotAddDockerResource, ev6)
                              | Some revno \<Rightarrow> (Inr revno, ev6)))))))"

definition uploadDockerResource ::
  "docker_world \<Rightarrow> uploadResourceParams \<Rightarrow> (error + int) \<times> event list" where
  "uploadDockerResource d p =
     (let refStr = TrimPrefix (reference p) ''external::'' in
      case d_ParseNormalizedNamed d refStr of
        None \<Rightarrow> (Inl (InvalidImageName (reference p)), [])
      | Some r \<Rightarrow>
          if length refStr \<noteq> length (reference p)
          then uploadExternalDockerResource d p r
          else push_local_image d p r)"

text \<open>\<^verbatim>\<open>uploadResource\<close>: the kind of the resource selects the upload.\<close>

definition uploadResource ::
  "file_world \<Rightarrow> docker_world \<Rightarrow> uploadResourceParams \<Rightarrow> (error + int) \<times> event list" where
  "uploadResource w d p =
     (case meta_Resources p (resourceName p) of
        None \<Rightarrow> (Inl (NoSuchResource (resourceName p)), [])
      | Some TypeFile \<Rightarrow> uploadFileResource w p
      | Some TypeDocker \<Rightarrow> uploadDockerResource d p
      | Some (TypeOther t) \<Rightarrow> (Inl (UnsupportedResourceType t), []))"

subsection \<open>Kinds of events\<close>

fun is_transfer_call :: "event \<Rightarrow> bool" where
  "is_transfer_call (EvResumeUploadResource _) = True"
| "is_transfer_call EvUploadResource = True"
| "is_transfer_call _ = False"

fun is_transfer_success :: "event \<Rightarrow> bool" where
  "is_transfer_success (EvTransferDone (Inr _)) = True"
| "is_transfer_success _ = False"

fun is_hash :: "event \<Rightarrow> bool" where
  "is_hash EvReadSeekerSHA256 = True"
| "is_hash _ = False"

fun is_lookup :: "event \<Rightarrow> bool" where
  "is_lookup (EvLookup _ _ _) = True"
| "is_lookup _ = False"

fun is_sweep :: "event \<Rightarrow> bool" where
  "is_sweep EvRemoveExpiredEntries = True"
| "is_sweep _ = False"

fun is_update :: "event \<Rightarrow> bool" where
  "is_update (EvUpdate _ _ _ _) = True"
| "is_update _ = False"

fun is_remove :: "event \<Rightarrow> bool" where
  "is_remove (EvRemove _ _ _) = True"
| "is_remove _ = False"

text \<open>The operations that change the persisted cache, and all operations on the cache.\<close>

definition is_cache_write :: "event \<Rightarrow> bool" where
  "is_cache_write e = (is_sweep e \<or> is_update e \<or> is_remove e)"

fun is_cache_event :: "event \<Rightarrow> bool" where
  "is_cache_event (EvNewUploadIdCache _ _) = True"
| "is_cache_event e = (is_lookup e \<or> is_cache_write e)"

fun is_head_request :: "event \<Rightarrow> bool" where
  "is_head_request (EvDockerRegistryDo _ _) = True"
| "is_head_request _ = False"



subsection \<open>Concrete collaborators\<close>

text \<open>A stand-in for the hash function, with results of 32 bytes.\<close>

definition demo_hash :: "byte list \<Rightarrow> byte list" where
  "demo_hash bs = replicate 32 (sum_list bs)"

definition sound_source :: read_seeker where
  "sound_source =
     \<lparr>rs_data = [1, 2, 3], rs_pos = 0, rs_read_fault = None, rs_seek_fault = False\<rparr>"

definition faulty_source :: read_seeker where
  "faulty_source =
     \<lparr>rs_data = [1, 2, 3], rs_pos = 0, rs_read_fault = Some 2, rs_seek_fault = False\<rparr>"

definition demo_params :: uploadResourceParams where
  "demo_params =
     \<lparr>meta_Resources = [''data'' \<mapsto> TypeFile, ''image'' \<mapsto> TypeDocker],
      charmId = ''cs:~who/app'', resourceName = ''data'', reference = ''data.bin'',
      cachePath = ''/tmp/ids''\<rparr>"

text \<open>
  A store that starts a new upload under the identifier id1 when asked to resume nothing,
  and no longer knows any identifier it is asked to resume; the cache is empty.
\<close>

definition demo_world :: file_world where
  "demo_world =
     \<lparr>w_AbsPath = (\<lambda>s. ''/home/'' @ s),
      w_Open = (\<lambda>_. Some sound_source),
      w_Stat = Some 3,
      w_sha256 = demo_hash,
      w_RemoveExpiredEntries_fails = False,
      w_Lookup = (\<lambda>_ _ _. CacheEntryNotFound),
      w_Update_fails = (\<lambda>_. False),
      w_Remove_fails = False,
      w_ResumeUploadResource =
        (\<lambda>u. if u = [] then \<lparr>t_started = [''id1''], t_result = Inr 7\<rparr>
             else \<lparr>t_started = [], t_result = Inl ErrUploadNotFound\<rparr>),
      w_UploadResource = \<lparr>t_started = [''id2''], t_result = Inr 8\<rparr>\<rparr>"

text \<open>The same, with an entry in the cache for the identifier id0.\<close>

definition stale_world :: file_world where
  "stale_world = demo_world\<lparr>w_Lookup := (\<lambda>_ _ _. Found \<lparr>UploadId = ''id0''\<rparr>)\<rparr>"

text \<open>The same as the first, with a cache whose lookup fails.\<close>

definition lookup_fault_world :: file_world where
  "lookup_fault_world = demo_world\<lparr>w_Lookup := (\<lambda>_ _ _. LookupFailure)\<rparr>"

text \<open>The same as the first, with a cache whose every write fails.\<close>

definition write_fault_world :: file_world where
  "write_fault_world =
     demo_world\<lparr>w_RemoveExpiredEntries_fails := True, w_Update_fails := (\<lambda>_. True),
                w_Remove_fails := True\<rparr>"

text \<open>
  Three references to the same repository: by tag, by digest, and by tag and digest.
\<close>

definition tagged_ref :: named_ref where
  "tagged_ref =
     \<lparr>ref_domain = ''docker.io'', ref_path = ''library/app'', ref_tag = Some ''v1'',
      ref_digest = None\<rparr>"

definition canonical_ref :: named_ref where
  "canonical_ref =
     \<lparr>ref_domain = ''docker.io'', ref_path = ''library/app'', ref_tag = None,
      ref_digest = Some ''sha256:aaa''\<rparr>"

definition pinned_ref :: named_ref where
  "pinned_ref =
     \<lparr>ref_domain = ''docker.io'', ref_path = ''library/app'', ref_tag = Some ''v1'',
      ref_digest = Some ''sha256:ccc''\<rparr>"

text \<open>The answer of a registry of version 2 that reports the given digest.\<close>

definition manifest_response :: "string \<Rightarrow> http_response" where
  "manifest_response digest =
     \<lparr>resp_StatusCode = 200,
      resp_Header = [''Docker-Distribution-Api-Version'' \<mapsto> ''registry/2.0'',
                     ''Docker-Content-Digest'' \<mapsto> digest]\<rparr>"

text \<open>
  A registry that reports the digest aaa in its answer to the first request and the digest
  bbb in its answer to the second, a docker daemon that pushes with the digest ddd, and a
  store that registers every image as revision 5.
\<close>

definition demo_docker :: docker_world where
  "demo_docker =
     \<lparr>d_ParseNormalizedNamed =
        (\<lambda>s. if s = ''app:v1'' then Some tagged_ref
             else if s = ''app@sha256:aaa'' then Some canonical_ref
             else if s = ''app:v1@sha256:ccc'' then Some pinned_ref
             else None),
      d_http_Get_fails = (\<lambda>_. False),
      d_Do = (\<lambda>n url. if n = 0 then Some (manifest_response ''sha256:aaa'')
                      else Some (manifest_response ''sha256:bbb'')),
      d_DockerResourceUploadInfo =
        Some \<lparr>ImageName = ''registry.store/who/app/image'', Username = ''who'',
              Password = ''secret''\<rparr>,
      d_NewEnvClient_fails = False,
      d_ImageTag_fails = False,
      d_Marshal_fails = False,
      d_ImagePush_fails = False,
      d_DisplayJSONMessagesStream = (False, ''sha256:ddd''),
      d_AddDockerResource = (\<lambda>_ _. Some 5)\<rparr>"

text \<open>The same, with a registry whose answers carry no digest.\<close>

definition silent_docker :: docker_world where
  "silent_docker =
     demo_docker\<lparr>d_Do := (\<lambda>_ _. Some (manifest_response []))\<rparr>"


section \<open>Properties\<close>

subsection \<open>The content hasher\<close>

lemma length_demo_hash: "length (demo_hash bs) = 32"
  by (simp add: demo_hash_def)

text \<open>
  Claim C3, as stated: the hasher leaves the read position at the start on the success path
  and on every failure path. It does not: a read that fails at offset 2 returns the error
  at once, with the position left at offset 2.
\<close>

theorem readSeekerSHA256_read_failure_counterexample:
  "fst (readSeekerSHA256 demo_hash faulty_source) = Inl ReadFailed
   \<and> rs_pos (snd (readSeekerSHA256 demo_hash faulty_source)) = 2"
  by (simp add: readSeekerSHA256_def io_Copy_def faulty_source_def)

text \<open>
  Claim C3, amended: when no read reaches a faulty offset and the seek succeeds, the hasher returns the digest (of
  fixed length, 32 bytes for a hash function with results of 32 bytes) of all the content
  from the read position on, which is the entire content for a source at its start, and
  leaves the position at the start. When a read fails, the error is returned without
  seeking and the position stays at the failing offset; when the seek fails, the error is
  returned and the position stays at the end of the data.
\<close>

theorem readSeekerSHA256_outcomes:
  assumes H: "\<And>bs. length (H bs) = 32"
  shows "((\<forall>k. rs_read_fault r = Some k \<longrightarrow> k < rs_pos r \<or> length (rs_data r) < k)
          \<and> \<not> rs_seek_fault r \<longrightarrow>
            readSeekerSHA256 H r = (Inr (H (drop (rs_pos r) (rs_data r))), r\<lparr>rs_pos := 0\<rparr>)
            \<and> length (H (drop (rs_pos r) (rs_data r))) = 32)
       \<and> ((\<forall>k. rs_read_fault r = Some k \<longrightarrow> k < rs_pos r \<or> length (rs_data r) < k)
          \<and> \<not> rs_seek_fault r \<and> rs_pos r = 0 \<longrightarrow>
            readSeekerSHA256 H r = (Inr (H (rs_data r)), r))
       \<and> (\<forall>k. rs_read_fault r = Some k \<and> rs_pos r \<le> k \<and> k \<le> length (rs_data r) \<longrightarrow>
            readSeekerSHA256 H r = (Inl ReadFailed, r\<lparr>rs_pos := k\<rparr>))
       \<and> ((\<forall>k. rs_read_fault r = Some k \<longrightarrow> k < rs_pos r \<or> length (rs_data r) < k)
          \<and> rs_seek_fault r \<longrightarrow>
            readSeekerSHA256 H r
              = (Inl SeekFailed, r\<lparr>rs_pos := max (rs_pos r) (length (rs_data r))\<rparr>))"
  using H
  by (cases "rs_read_fault r")
     (auto simp: readSeekerSHA256_def io_Copy_def seek_start_def Let_def)

theorem readSeekerSHA256_outcomes_witness:
  "readSeekerSHA256 demo_hash sound_source = (Inr (demo_hash [1, 2, 3]), sound_source)
   \<and> length (demo_hash [1, 2, 3]) = 32
   \<and> readSeekerSHA256 demo_hash faulty_source = (Inl ReadFailed, faulty_source\<lparr>rs_pos := 2\<rparr>)"
  using readSeekerSHA256_outcomes [of demo_hash sound_source, OF length_demo_hash]
        readSeekerSHA256_outcomes [of demo_hash faulty_source, OF length_demo_hash]
  by (simp add: sound_source_def faulty_source_def)

subsection \<open>The calls to the store during the upload of a file\<close>

lemma no_call_in_callbacks:
  "filter is_transfer_call (concat (map (setUploadId w p cv) ids)) = []"
  by (induction ids) (simp_all add: setUploadId_def)

lemma calls_of_transfer_events:
  "is_transfer_call c \<Longrightarrow> filter is_transfer_call (transfer_events w p cv c t) = [c]"
  by (simp add: transfer_events_def no_call_in_callbacks)

lemma calls_of_cache_branch:
  "filter is_transfer_call (snd (cache_branch w p f)) = []"
  by (simp add: cache_branch_def Let_def split: sum.splits lookup_result.splits)

lemma calls_of_cache_cleanup:
  "filter is_transfer_call (cache_cleanup w p cv) = []"
  by (simp add: cache_cleanup_def)

lemma calls_of_upload_attempts:
  "filter is_transfer_call (snd (upload_attempts w p cv))
     = (if t_result (w_ResumeUploadResource w (cv_uploadId cv)) = Inl ErrUploadNotFound
        then [EvResumeUploadResource (cv_uploadId cv), EvUploadResource]
        else [EvResumeUploadResource (cv_uploadId cv)])"
  by (auto simp: upload_attempts_def Let_def calls_of_transfer_events split: sum.splits)

lemma result_of_upload_attempts:
  "fst (upload_attempts w p cv)
     = (case t_result (w_ResumeUploadResource w (cv_uploadId cv)) of
          Inr revno \<Rightarrow> Inr revno
        | Inl err \<Rightarrow>
            if err = ErrUploadNotFound
            then (case t_result (w_UploadResource w) of
                    Inr revno \<Rightarrow> Inr revno
                  | Inl err2 \<Rightarrow> Inl (CantUploadResource err2))
            else Inl (CantUploadResource err))"
  by (simp add: upload_attempts_def Let_def split: sum.splits)

lemma uploadFileResource_after_cache_branch:
  assumes "w_Open w (w_AbsPath w (reference p)) = Some f" and "w_Stat w = Some sz"
    and "cache_branch w p f = (Inr cv, ev)"
  shows "fst (uploadFileResource w p) = fst (upload_attempts w p cv)"
    and "filter is_transfer_call (snd (uploadFileResource w p))
           = filter is_transfer_call (snd (upload_attempts w p cv))"
  using assms calls_of_cache_branch [of w p f]
  by (auto simp: uploadFileResource_def Let_def calls_of_cache_cleanup
           split: prod.splits sum.splits)

text \<open>
  Claim C1: when the lookup finds a cached upload identifier, the calls to the store are
  one resume attempt with that identifier, followed by exactly one fresh upload when the
  resume attempt answers upload not found, and by nothing otherwise. A failure of the
  fresh upload, whatever its cause, and a failure of the resume attempt with another
  cause are returned to the caller. The function has no loop: it makes at most these two
  calls.
\<close>

theorem resume_attempted_at_most_once:
  assumes opened: "w_Open w (w_AbsPath w (reference p)) = Some f"
    and stat: "w_Stat w = Some sz"
    and cache: "cachePath p \<noteq> []"
    and hashed: "fst (readSeekerSHA256 (w_sha256 w) f) = Inr h"
    and found: "w_Lookup w (charmId p) (resourceName p) h = Found entry"
  shows "filter is_transfer_call (snd (uploadFileResource w p))
           = (if t_result (w_ResumeUploadResource w (UploadId entry)) = Inl ErrUploadNotFound
              then [EvResumeUploadResource (UploadId entry), EvUploadResource]
              else [EvResumeUploadResource (UploadId entry)])
       \<and> fst (uploadFileResource w p)
           = (case t_result (w_ResumeUploadResource w (UploadId entry)) of
                Inr revno \<Rightarrow> Inr revno
              | Inl err \<Rightarrow>
                  if err = ErrUploadNotFound
                  then (case t_result (w_UploadResource w) of
                          Inr revno \<Rightarrow> Inr revno
                        | Inl err2 \<Rightarrow> Inl (CantUploadResource err2))
                  else Inl (CantUploadResource err))"
proof -
  let ?cv = "\<lparr>cv_cache = True, cv_contentHash = h, cv_uploadId = UploadId entry\<rparr>"
  have "\<exists>ev. cache_branch w p f = (Inr ?cv, ev)"
    using cache hashed found by (simp add: cache_branch_def Let_def)
  then obtain ev where cb: "cache_branch w p f = (Inr ?cv, ev)" ..
  show ?thesis
    using uploadFileResource_after_cache_branch [OF opened stat cb]
    by (simp add: calls_of_upload_attempts result_of_upload_attempts)
qed

theorem resume_attempted_at_most_once_witness:
  "filter is_transfer_call (snd (uploadFileResource stale_world demo_params))
     = [EvResumeUploadResource ''id0'', EvUploadResource]
   \<and> fst (uploadFileResource stale_world demo_params) = Inr 8"
  using resume_attempted_at_most_once [of stale_world demo_params sound_source 3
          "demo_hash [1, 2, 3]" "\<lparr>UploadId = ''id0''\<rparr>"]
  by (simp add: stale_world_def demo_world_def demo_params_def sound_source_def
        readSeekerSHA256_def io_Copy_def seek_start_def)



lemma callbacks_without_cache:
  "\<not> cv_cache cv \<Longrightarrow> concat (map (setUploadId w p cv) ids) = []"
  by (induction ids) (simp_all add: setUploadId_def)

lemma cache_branch_without_path:
  "cachePath p = [] \<Longrightarrow>
   cache_branch w p f = (Inr \<lparr>cv_cache = False, cv_contentHash = [], cv_uploadId = []\<rparr>, [])"
  by (simp add: cache_branch_def)

text \<open>
  Claim C7: with no cache path configured, the trace holds no hashing of the content and
  no operation on the cache. Once the file is opened, the first call to the store is a
  resume with the empty upload identifier, which the store treats as a fresh upload, and
  the call returns what the store answers: the mode is not an error.
\<close>

theorem no_cache_path_fresh_upload:
  assumes nocache: "cachePath p = []"
  shows "(\<forall>e \<in> set (snd (uploadFileResource w p)). \<not> is_hash e \<and> \<not> is_cache_event e)
       \<and> (\<forall>f sz. w_Open w (w_AbsPath w (reference p)) = Some f \<and> w_Stat w = Some sz \<longrightarrow>
            filter is_transfer_call (snd (uploadFileResource w p))
              = (if t_result (w_ResumeUploadResource w []) = Inl ErrUploadNotFound
                 then [EvResumeUploadResource [], EvUploadResource]
                 else [EvResumeUploadResource []])
            \<and> fst (uploadFileResource w p)
              = (case t_result (w_ResumeUploadResource w []) of
                   Inr revno \<Rightarrow> Inr revno
                 | Inl err \<Rightarrow>
                     if err = ErrUploadNotFound
                     then (case t_result (w_UploadResource w) of
                             Inr revno \<Rightarrow> Inr revno
                           | Inl err2 \<Rightarrow> Inl (CantUploadResource err2))
                     else Inl (CantUploadResource err)))"
proof -
  let ?cv = "\<lparr>cv_cache = False, cv_contentHash = [], cv_uploadId = []\<rparr>"
  have quiet: "\<forall>e \<in> set (snd (upload_attempts w p ?cv)). \<not> is_hash e \<and> \<not> is_cache_event e"
    by (auto simp: upload_attempts_def transfer_events_def callbacks_without_cache Let_def
                   is_cache_write_def split: sum.splits)
  have "\<forall>e \<in> set (snd (uploadFileResource w p)). \<not> is_hash e \<and> \<not> is_cache_event e"
    using quiet
    by (auto simp: uploadFileResource_def cache_branch_without_path [OF nocache] Let_def
                   cache_cleanup_def is_cache_write_def
             split: option.splits prod.splits sum.splits)
  moreover
  have "filter is_transfer_call (snd (uploadFileResource w p))
          = filter is_transfer_call (snd (upload_attempts w p ?cv))
        \<and> fst (uploadFileResource w p) = fst (upload_attempts w p ?cv)"
    if "w_Open w (w_AbsPath w (reference p)) = Some f" and "w_Stat w = Some sz" for f sz
    using that uploadFileResource_after_cache_branch [OF that cache_branch_without_path [OF nocache]]
    by simp
  ultimately show ?thesis
    by (simp add: calls_of_upload_attempts result_of_upload_attempts)
qed

theorem no_cache_path_fresh_upload_witness:
  "snd (uploadFileResource demo_world (demo_params\<lparr>cachePath := []\<rparr>))
     = [EvOpen ''/home/data.bin'', EvStat, EvResumeUploadResource [], EvTransferDone (Inr 7)]
   \<and> fst (uploadFileResource demo_world (demo_params\<lparr>cachePath := []\<rparr>)) = Inr 7"
  using no_cache_path_fresh_upload [of "demo_params\<lparr>cachePath := []\<rparr>" demo_world]
  by (simp add: demo_world_def demo_params_def uploadFileResource_def cache_branch_def
        upload_attempts_def transfer_events_def setUploadId_def cache_cleanup_def)

subsection \<open>The order of the cache operations and the calls to the store\<close>

lemma cache_branch_events:
  "\<forall>e \<in> set (snd (cache_branch w p f)). \<not> is_transfer_call e \<and> \<not> is_remove e"
  by (auto simp: cache_branch_def Let_def split: sum.splits lookup_result.splits if_splits)

lemma transfer_events_quiet:
  "\<not> is_lookup c \<Longrightarrow> \<not> is_remove c \<Longrightarrow>
   \<forall>e \<in> set (transfer_events w p cv c t). \<not> is_lookup e \<and> \<not> is_remove e"
  by (auto simp: transfer_events_def setUploadId_def split: if_splits)

lemma upload_attempts_events:
  "\<forall>e \<in> set (snd (upload_attempts w p cv)). \<not> is_lookup e \<and> \<not> is_remove e"
  using transfer_events_quiet [of "EvResumeUploadResource (cv_uploadId cv)" w p cv]
        transfer_events_quiet [of EvUploadResource w p cv]
  by (auto simp: upload_attempts_def Let_def split: sum.splits)

lemma upload_attempts_success:
  "upload_attempts w p cv = (Inr revno, ev) \<Longrightarrow> \<exists>x \<in> set ev. is_transfer_success x"
  by (auto simp: upload_attempts_def Let_def transfer_events_def split: sum.splits if_splits)

lemma cache_cleanup_events:
  "\<forall>e \<in> set (cache_cleanup w p cv). \<not> is_lookup e \<and> \<not> is_transfer_call e"
  by (auto simp: cache_cleanup_def split: if_splits)

lemma uploadFileResource_shape:
  "\<exists>pre mid post. snd (uploadFileResource w p) = pre @ mid @ post
     \<and> (\<forall>e \<in> set pre. \<not> is_transfer_call e \<and> \<not> is_remove e)
     \<and> (\<forall>e \<in> set mid. \<not> is_lookup e \<and> \<not> is_remove e)
     \<and> (\<forall>e \<in> set post. \<not> is_lookup e \<and> \<not> is_transfer_call e)
     \<and> (post \<noteq> [] \<longrightarrow> (\<exists>x \<in> set mid. is_transfer_success x)
                        \<and> (\<exists>revno. fst (uploadFileResource w p) = Inr revno))"
proof -
  let ?path = "w_AbsPath w (reference p)"
  let ?shape = "\<lambda>pre mid post. snd (uploadFileResource w p) = pre @ mid @ post
     \<and> (\<forall>e \<in> set pre. \<not> is_transfer_call e \<and> \<not> is_remove e)
     \<and> (\<forall>e \<in> set mid. \<not> is_lookup e \<and> \<not> is_remove e)
     \<and> (\<forall>e \<in> set post. \<not> is_lookup e \<and> \<not> is_transfer_call e)
     \<and> (post \<noteq> [] \<longrightarrow> (\<exists>x \<in> set mid. is_transfer_success x)
                        \<and> (\<exists>revno. fst (uploadFileResource w p) = Inr revno))"
  show ?thesis
  proof (cases "w_Open w ?path")
    case None
    then have "?shape [EvOpen ?path] [] []"
      by (simp add: uploadFileResource_def)
    then show ?thesis by blast
  next
    case (Some f)
    note opened = this
    show ?thesis
    proof (cases "w_Stat w")
      case None
      with opened have "?shape [EvOpen ?path, EvStat] [] []"
        by (simp add: uploadFileResource_def)
      then show ?thesis by blast
    next
      case (Some sz)
      note stat = this
      obtain r1 ev1 where cb: "cache_branch w p f = (r1, ev1)"
        by (cases "cache_branch w p f")
      have ev1: "\<forall>e \<in> set ev1. \<not> is_transfer_call e \<and> \<not> is_remove e"
        using cache_branch_events [of w p f] cb by simp
      show ?thesis
      proof (cases r1)
        case (Inl e)
        with opened stat cb ev1 have "?shape ([EvOpen ?path, EvStat] @ ev1) [] []"
          by (simp add: uploadFileResource_def)
        then show ?thesis by blast
      next
        case (Inr cv)
        note cached = this
        obtain r2 ev2 where ua: "upload_attempts w p cv = (r2, ev2)"
          by (cases "upload_attempts w p cv")
        have ev2: "\<forall>e \<in> set ev2. \<not> is_lookup e \<and> \<not> is_remove e"
          using upload_attempts_events [of w p cv] ua by simp
        show ?thesis
        proof (cases r2)
          case (Inl e)
          with opened stat cb cached ua ev1 ev2
          have "?shape ([EvOpen ?path, EvStat] @ ev1) ev2 []"
            by (simp add: uploadFileResource_def)
          then show ?thesis by blast
        next
          case (Inr revno)
          with ua have "\<exists>x \<in> set ev2. is_transfer_success x"
            using upload_attempts_success by blast
          with Inr opened stat cb cached ua ev1 ev2 cache_cleanup_events [of w p cv]
          have "?shape ([EvOpen ?path, EvStat] @ ev1) ev2 (cache_cleanup w p cv)"
            by (simp add: uploadFileResource_def)
          then show ?thesis by blast
        qed
      qed
    qed
  qed
qed

lemma found_in_front:
  assumes "A @ B = xs @ e # ys" and "\<forall>b \<in> set B. \<not> Q b" and "Q e"
  shows "\<exists>zs. A = xs @ e # zs"
proof -
  from assms(1) obtain us where
    "(A = xs @ us \<and> us @ B = e # ys) \<or> (A @ us = xs \<and> B = us @ e # ys)"
    by (auto simp: append_eq_append_conv2)
  then show ?thesis
  proof
    assume a: "A = xs @ us \<and> us @ B = e # ys"
    show ?thesis
    proof (cases us)
      case Nil
      with a assms(2,3) show ?thesis by auto
    next
      case (Cons u us')
      with a show ?thesis by auto
    qed
  next
    assume "A @ us = xs \<and> B = us @ e # ys"
    with assms(2,3) show ?thesis by auto
  qed
qed

lemma found_in_back:
  assumes "A @ B = xs @ e # ys" and "\<forall>a \<in> set A. \<not> Q a" and "Q e"
  shows "\<exists>zs. xs = A @ zs \<and> B = zs @ e # ys"
proof -
  from assms(1) obtain us where
    "(A = xs @ us \<and> us @ B = e # ys) \<or> (A @ us = xs \<and> B = us @ e # ys)"
    by (auto simp: append_eq_append_conv2)
  then show ?thesis
  proof
    assume a: "A = xs @ us \<and> us @ B = e # ys"
    show ?thesis
    proof (cases us)
      case Nil
      with a show ?thesis by auto
    next
      case (Cons u us')
      with a assms(2,3) show ?thesis by auto
    qed
  next
    assume "A @ us = xs \<and> B = us @ e # ys"
    then show ?thesis by auto
  qed
qed

text \<open>
  Claim C5: in the trace of every call, no call to the store precedes the cache lookup,
  and the removal of the cache entry comes after an answer of the store that reports
  success, is followed by no call to the store, and occurs only in a call that returns a
  revision.
\<close>

theorem lookup_first_removal_last:
  "(\<forall>xs e ys. snd (uploadFileResource w p) = xs @ e # ys \<and> is_lookup e \<longrightarrow>
       (\<forall>x \<in> set xs. \<not> is_transfer_call x))
   \<and> (\<forall>xs e ys. snd (uploadFileResource w p) = xs @ e # ys \<and> is_remove e \<longrightarrow>
       (\<exists>x \<in> set xs. is_transfer_success x)
       \<and> (\<forall>y \<in> set ys. \<not> is_transfer_call y)
       \<and> (\<exists>revno. fst (uploadFileResource w p) = Inr revno))"
proof -
  obtain pre mid post where tr: "snd (uploadFileResource w p) = pre @ mid @ post"
    and pre: "\<forall>e \<in> set pre. \<not> is_transfer_call e \<and> \<not> is_remove e"
    and mid: "\<forall>e \<in> set mid. \<not> is_lookup e \<and> \<not> is_remove e"
    and post: "\<forall>e \<in> set post. \<not> is_lookup e \<and> \<not> is_transfer_call e"
    and fin: "post \<noteq> [] \<longrightarrow> (\<exists>x \<in> set mid. is_transfer_success x)
                        \<and> (\<exists>revno. fst (uploadFileResource w p) = Inr revno)"
    using uploadFileResource_shape [of w p] by blast
  have first: "\<forall>x \<in> set xs. \<not> is_transfer_call x"
    if "snd (uploadFileResource w p) = xs @ e # ys" and "is_lookup e" for xs e ys
  proof -
    have "\<forall>b \<in> set (mid @ post). \<not> is_lookup b" using mid post by auto
    with that tr obtain zs where "pre = xs @ e # zs"
      using found_in_front [of pre "mid @ post" xs e ys is_lookup] by auto
    with pre show ?thesis by auto
  qed
  have last: "(\<exists>x \<in> set xs. is_transfer_success x)
       \<and> (\<forall>y \<in> set ys. \<not> is_transfer_call y)
       \<and> (\<exists>revno. fst (uploadFileResource w p) = Inr revno)"
    if "snd (uploadFileResource w p) = xs @ e # ys" and "is_remove e" for xs e ys
  proof -
    have "\<forall>a \<in> set (pre @ mid). \<not> is_remove a" using pre mid by auto
    with that tr obtain zs where zs: "xs = (pre @ mid) @ zs" "post = zs @ e # ys"
      using found_in_back [of "pre @ mid" post xs e ys is_remove] by auto
    then have "post \<noteq> []" by auto
    with fin zs post show ?thesis by auto
  qed
  from first last show ?thesis by blast
qed


theorem lookup_first_removal_last_witness:
  "snd (uploadFileResource demo_world demo_params)
     = [EvOpen ''/home/data.bin'', EvStat, EvNewUploadIdCache ''/tmp/ids'' 48,
        EvRemoveExpiredEntries, EvReadSeekerSHA256]
       @ EvLookup ''cs:~who/app'' ''data'' (demo_hash [1, 2, 3])
       # [EvResumeUploadResource [],
          EvUpdate ''id1'' ''cs:~who/app'' ''data'' (demo_hash [1, 2, 3]),
          EvTransferDone (Inr 7), EvRemove ''cs:~who/app'' ''data'' (demo_hash [1, 2, 3])]
   \<and> is_lookup (EvLookup ''cs:~who/app'' ''data'' (demo_hash [1, 2, 3]))
   \<and> filter is_transfer_call
        [EvOpen ''/home/data.bin'', EvStat, EvNewUploadIdCache ''/tmp/ids'' 48,
         EvRemoveExpiredEntries, EvReadSeekerSHA256] = []
   \<and> is_remove (EvRemove ''cs:~who/app'' ''data'' (demo_hash [1, 2, 3]))
   \<and> is_transfer_success (EvTransferDone (Inr 7))
   \<and> fst (uploadFileResource demo_world demo_params) = Inr 7"
  using lookup_first_removal_last [of demo_world demo_params]
  by (simp add: demo_world_def demo_params_def sound_source_def uploadFileResource_def
        cache_branch_def upload_attempts_def transfer_events_def setUploadId_def
        cache_cleanup_def readSeekerSHA256_def io_Copy_def seek_start_def
        uploadIdCacheExpiryDuration_def)

subsection \<open>The number of cache operations\<close>


lemma counts_of_cache_branch:
  "length (filter is_lookup (snd (cache_branch w p f))) \<le> Suc 0"
  "length (filter is_sweep (snd (cache_branch w p f))) \<le> Suc 0"
  "filter is_update (snd (cache_branch w p f)) = []"
  "filter is_remove (snd (cache_branch w p f)) = []"
  by (simp_all add: cache_branch_def Let_def split: sum.splits lookup_result.splits)




lemma counts_of_cache_cleanup:
  "filter is_lookup (cache_cleanup w p cv) = []"
  "filter is_sweep (cache_cleanup w p cv) = []"
  "filter is_update (cache_cleanup w p cv) = []"
  "length (filter is_remove (cache_cleanup w p cv)) \<le> Suc 0"
  by (simp_all add: cache_cleanup_def)

lemma uploadFileResource_trace_cases:
  "snd (uploadFileResource w p) = [EvOpen (w_AbsPath w (reference p))]
   \<or> snd (uploadFileResource w p) = [EvOpen (w_AbsPath w (reference p)), EvStat]
   \<or> (\<exists>f. snd (uploadFileResource w p)
            = [EvOpen (w_AbsPath w (reference p)), EvStat] @ snd (cache_branch w p f))
   \<or> (\<exists>f cv. snd (uploadFileResource w p)
             = [EvOpen (w_AbsPath w (reference p)), EvStat] @ snd (cache_branch w p f)
               @ snd (upload_attempts w p cv))
   \<or> (\<exists>f cv. snd (uploadFileResource w p)
             = [EvOpen (w_AbsPath w (reference p)), EvStat] @ snd (cache_branch w p f)
               @ snd (upload_attempts w p cv) @ cache_cleanup w p cv)"
proof (cases "w_Open w (w_AbsPath w (reference p))")
  case None
  then show ?thesis by (simp add: uploadFileResource_def)
next
  case (Some f)
  note opened = this
  show ?thesis
  proof (cases "w_Stat w")
    case None
    with opened show ?thesis by (simp add: uploadFileResource_def)
  next
    case (Some sz)
    note stat = this
    show ?thesis
    proof (cases "fst (cache_branch w p f)")
      case (Inl e)
      with opened stat
      have "snd (uploadFileResource w p)
              = [EvOpen (w_AbsPath w (reference p)), EvStat] @ snd (cache_branch w p f)"
        by (auto simp: uploadFileResource_def Let_def split: prod.splits)
      then show ?thesis by blast
    next
      case (Inr cv)
      note cached = this
      show ?thesis
      proof (cases "fst (upload_attempts w p cv)")
        case (Inl e)
        with opened stat cached
        have "snd (uploadFileResource w p)
                = [EvOpen (w_AbsPath w (reference p)), EvStat] @ snd (cache_branch w p f)
                  @ snd (upload_attempts w p cv)"
          by (auto simp: uploadFileResource_def Let_def split: prod.splits)
        then show ?thesis by blast
      next
        case (Inr revno)
        with opened stat cached
        have "snd (uploadFileResource w p)
                = [EvOpen (w_AbsPath w (reference p)), EvStat] @ snd (cache_branch w p f)
                  @ snd (upload_attempts w p cv) @ cache_cleanup w p cv"
          by (auto simp: uploadFileResource_def Let_def split: prod.splits)
        then show ?thesis by blast
      qed
    qed
  qed
qed






subsection \<open>Errors of the cache\<close>

lemma result_of_cache_branch:
  "fst (cache_branch w p f)
     = (if cachePath p \<noteq> []
        then (case fst (readSeekerSHA256 (w_sha256 w) f) of
                Inl e \<Rightarrow> Inl e
              | Inr h \<Rightarrow>
                  (case w_Lookup w (charmId p) (resourceName p) h of
                     Found entry \<Rightarrow>
                       Inr \<lparr>cv_cache = True, cv_contentHash = h, cv_uploadId = UploadId entry\<rparr>
                   | CacheEntryNotFound \<Rightarrow>
                       Inr \<lparr>cv_cache = True, cv_contentHash = h, cv_uploadId = []\<rparr>
                   | LookupFailure \<Rightarrow> Inl CacheLookupFailed))
        else Inr \<lparr>cv_cache = False, cv_contentHash = [], cv_uploadId = []\<rparr>)"
  by (simp add: cache_branch_def Let_def split: sum.splits lookup_result.splits)

lemma result_of_uploadFileResource:
  "fst (uploadFileResource w p)
     = (case w_Open w (w_AbsPath w (reference p)) of
          None \<Rightarrow> Inl OpenFailed
        | Some f \<Rightarrow>
            (case w_Stat w of
               None \<Rightarrow> Inl StatFailed
             | Some sz \<Rightarrow>
                 (case fst (cache_branch w p f) of
                    Inl e \<Rightarrow> Inl e
                  | Inr cv \<Rightarrow> fst (upload_attempts w p cv))))"
  by (auto simp: uploadFileResource_def Let_def split: option.splits prod.splits sum.splits)

lemma readSeekerSHA256_errors:
  "fst (readSeekerSHA256 H r) = Inl e \<Longrightarrow> e = ReadFailed \<or> e = SeekFailed"
  by (auto simp: readSeekerSHA256_def io_Copy_def seek_start_def Let_def
           split: option.splits if_splits)

lemma upload_attempts_errors:
  "fst (upload_attempts w p cv) \<noteq> Inl CacheLookupFailed"
  by (simp add: result_of_upload_attempts split: sum.splits)

lemma cache_branch_Warning:
  "cachePath p \<noteq> [] \<Longrightarrow> w_RemoveExpiredEntries_fails w \<Longrightarrow>
   EvWarning ''cannot remove expired uploadId cache entries'' \<in> set (snd (cache_branch w p f))"
  by (simp add: cache_branch_def Let_def split: sum.splits lookup_result.splits)

lemma cache_branch_configured:
  "fst (cache_branch w p f) = Inr cv \<Longrightarrow> cv_cache cv = (cachePath p \<noteq> [])"
  by (auto simp: result_of_cache_branch split: if_splits sum.splits lookup_result.splits)

lemma cache_cleanup_LogError:
  "cv_cache cv \<Longrightarrow> w_Remove_fails w \<Longrightarrow>
   EvLogError ''cannot remove uploadId cache entry'' \<in> set (cache_cleanup w p cv)"
  by (simp add: cache_cleanup_def)

lemma uploadFileResource_success_trace:
  assumes "fst (uploadFileResource w p) = Inr revno"
  shows "\<exists>f cv. fst (cache_branch w p f) = Inr cv
           \<and> snd (uploadFileResource w p)
               = [EvOpen (w_AbsPath w (reference p)), EvStat] @ snd (cache_branch w p f)
                 @ snd (upload_attempts w p cv) @ cache_cleanup w p cv"
proof -
  from assms obtain f sz where opened: "w_Open w (w_AbsPath w (reference p)) = Some f"
    and stat: "w_Stat w = Some sz"
    by (auto simp: result_of_uploadFileResource split: option.splits)
  with assms obtain cv where cv: "fst (cache_branch w p f) = Inr cv"
    and ua: "fst (upload_attempts w p cv) = Inr revno"
    by (auto simp: result_of_uploadFileResource split: sum.splits)
  with opened stat
  have "snd (uploadFileResource w p)
          = [EvOpen (w_AbsPath w (reference p)), EvStat] @ snd (cache_branch w p f)
            @ snd (upload_attempts w p cv) @ cache_cleanup w p cv"
    by (auto simp: uploadFileResource_def Let_def split: prod.splits)
  with cv show ?thesis by blast
qed

lemma callbacks_logged:
  "EvUpdate u c n h \<in> set (concat (map (setUploadId w p cv) ids)) \<Longrightarrow> w_Update_fails w u \<Longrightarrow>
   EvLogError ''cannot update uploadId cache'' \<in> set (concat (map (setUploadId w p cv) ids))"
  by (induction ids) (auto simp: setUploadId_def split: if_splits)

lemma transfer_events_logged:
  "is_transfer_call call \<Longrightarrow>
   EvUpdate u c n h \<in> set (transfer_events w p cv call t) \<Longrightarrow> w_Update_fails w u \<Longrightarrow>
   EvLogError ''cannot update uploadId cache'' \<in> set (transfer_events w p cv call t)"
  using callbacks_logged [of u c n h w p cv "t_started t"]
  by (cases call) (auto simp: transfer_events_def)

lemma upload_attempts_logged:
  "EvUpdate u c n h \<in> set (snd (upload_attempts w p cv)) \<Longrightarrow> w_Update_fails w u \<Longrightarrow>
   EvLogError ''cannot update uploadId cache'' \<in> set (snd (upload_attempts w p cv))"
  using transfer_events_logged [where call = "EvResumeUploadResource (cv_uploadId cv)"
          and t = "w_ResumeUploadResource w (cv_uploadId cv)" and u = u and c = c and n = n
          and h = h and w = w and p = p and cv = cv]
        transfer_events_logged [where call = EvUploadResource and t = "w_UploadResource w"
          and u = u and c = c and n = n and h = h and w = w and p = p and cv = cv]
  by (auto simp: upload_attempts_def Let_def split: sum.splits if_splits)

lemma no_update_outside_attempts:
  "EvUpdate u c n h \<notin> set (snd (cache_branch w p f))"
  "EvUpdate u c n h \<notin> set (cache_cleanup w p cv)"
  using counts_of_cache_branch(3) [of w p f] counts_of_cache_cleanup(3) [of w p cv]
  by (auto simp: filter_empty_conv)

lemma uploadFileResource_logged:
  assumes "EvUpdate u c n h \<in> set (snd (uploadFileResource w p))" and "w_Update_fails w u"
  shows "EvLogError ''cannot update uploadId cache'' \<in> set (snd (uploadFileResource w p))"
  using uploadFileResource_trace_cases [of w p] assms upload_attempts_logged [of u c n h w p]
  by (auto simp: no_update_outside_attempts)

text \<open>
  Claim C8, as stated: a cache error fails the call only when the cache cannot be
  initialized. It also does when the lookup fails: here the cache is created and swept
  without error, the lookup fails with an error other than entry not found, and the call
  returns that error without any call to the store.
\<close>

theorem lookup_failure_counterexample:
  "fst (uploadFileResource lookup_fault_world demo_params) = Inl CacheLookupFailed
   \<and> snd (uploadFileResource lookup_fault_world demo_params)
       = [EvOpen ''/home/data.bin'', EvStat, EvNewUploadIdCache ''/tmp/ids'' 48,
          EvRemoveExpiredEntries, EvReadSeekerSHA256,
          EvLookup ''cs:~who/app'' ''data'' (demo_hash [1, 2, 3])]"
  by (simp add: lookup_fault_world_def demo_world_def demo_params_def sound_source_def
        uploadFileResource_def cache_branch_def readSeekerSHA256_def io_Copy_def
        seek_start_def uploadIdCacheExpiryDuration_def)

text \<open>
  Claim C8, amended: whether the expiry sweep, the update of the upload identifier and the
  removal of the entry fail has no influence on what the call returns, and each such
  failure is logged. A cache error fails the call only when the lookup
  fails with an error other than entry not found; then no call to the store is made.
\<close>

theorem cache_write_errors_swallowed:
  "fst (uploadFileResource
          (w\<lparr>w_RemoveExpiredEntries_fails := a, w_Update_fails := b, w_Remove_fails := c\<rparr>) p)
     = fst (uploadFileResource w p)
   \<and> (\<forall>revno. fst (uploadFileResource w p) = Inr revno \<and> cachePath p \<noteq> [] \<longrightarrow>
        (w_RemoveExpiredEntries_fails w \<longrightarrow>
           EvWarning ''cannot remove expired uploadId cache entries''
             \<in> set (snd (uploadFileResource w p)))
        \<and> (w_Remove_fails w \<longrightarrow>
             EvLogError ''cannot remove uploadId cache entry''
               \<in> set (snd (uploadFileResource w p))))
   \<and> (\<forall>u c n h. EvUpdate u c n h \<in> set (snd (uploadFileResource w p))
                  \<and> w_Update_fails w u \<longrightarrow>
        EvLogError ''cannot update uploadId cache'' \<in> set (snd (uploadFileResource w p)))
   \<and> (fst (uploadFileResource w p) = Inl CacheLookupFailed \<longrightarrow>
        cachePath p \<noteq> []
        \<and> (\<exists>f h. w_Open w (w_AbsPath w (reference p)) = Some f
              \<and> fst (readSeekerSHA256 (w_sha256 w) f) = Inr h
              \<and> w_Lookup w (charmId p) (resourceName p) h = LookupFailure)
        \<and> (\<forall>e \<in> set (snd (uploadFileResource w p)). \<not> is_transfer_call e))"
proof -
  let ?w' = "w\<lparr>w_RemoveExpiredEntries_fails := a, w_Update_fails := b, w_Remove_fails := c\<rparr>"
  have "fst (cache_branch ?w' p f) = fst (cache_branch w p f)" for f
    by (simp add: result_of_cache_branch split: sum.splits)
  moreover have "fst (upload_attempts ?w' p cv) = fst (upload_attempts w p cv)" for cv
    by (simp add: result_of_upload_attempts split: sum.splits)
  ultimately have same: "fst (uploadFileResource ?w' p) = fst (uploadFileResource w p)"
    by (simp add: result_of_uploadFileResource split: option.splits sum.splits)
  have logged: "(w_RemoveExpiredEntries_fails w \<longrightarrow>
           EvWarning ''cannot remove expired uploadId cache entries''
             \<in> set (snd (uploadFileResource w p)))
        \<and> (w_Remove_fails w \<longrightarrow>
             EvLogError ''cannot remove uploadId cache entry''
               \<in> set (snd (uploadFileResource w p)))"
    if ok: "fst (uploadFileResource w p) = Inr revno" and cfg: "cachePath p \<noteq> []" for revno
  proof -
    from uploadFileResource_success_trace [OF ok] obtain f cv
      where cv: "fst (cache_branch w p f) = Inr cv"
        and tr: "snd (uploadFileResource w p)
                   = [EvOpen (w_AbsPath w (reference p)), EvStat] @ snd (cache_branch w p f)
                     @ snd (upload_attempts w p cv) @ cache_cleanup w p cv"
      by blast
    from cv cfg have "cv_cache cv" by (simp add: cache_branch_configured)
    then show ?thesis
      using tr cfg cache_branch_Warning [of p w f] cache_cleanup_LogError [of cv w p]
      by auto
  qed
  have fatal: "cachePath p \<noteq> []
        \<and> (\<exists>f h. w_Open w (w_AbsPath w (reference p)) = Some f
              \<and> fst (readSeekerSHA256 (w_sha256 w) f) = Inr h
              \<and> w_Lookup w (charmId p) (resourceName p) h = LookupFailure)
        \<and> (\<forall>e \<in> set (snd (uploadFileResource w p)). \<not> is_transfer_call e)"
    if bad: "fst (uploadFileResource w p) = Inl CacheLookupFailed"
  proof -
    from bad obtain f sz where opened: "w_Open w (w_AbsPath w (reference p)) = Some f"
      and stat: "w_Stat w = Some sz"
      by (auto simp: result_of_uploadFileResource split: option.splits)
    with bad have cb: "fst (cache_branch w p f) = Inl CacheLookupFailed"
      using upload_attempts_errors [of w p]
      by (auto simp: result_of_uploadFileResource split: sum.splits)
    then have cfg: "cachePath p \<noteq> []"
      by (auto simp: result_of_cache_branch split: if_splits)
    with cb obtain h where "fst (readSeekerSHA256 (w_sha256 w) f) = Inr h"
      and "w_Lookup w (charmId p) (resourceName p) h = LookupFailure"
      using readSeekerSHA256_errors [of "w_sha256 w" f]
      by (auto simp: result_of_cache_branch split: sum.splits lookup_result.splits)
    moreover
    from opened stat cb
    have "snd (uploadFileResource w p)
            = [EvOpen (w_AbsPath w (reference p)), EvStat] @ snd (cache_branch w p f)"
      by (auto simp: uploadFileResource_def Let_def split: prod.splits)
    then have "\<forall>e \<in> set (snd (uploadFileResource w p)). \<not> is_transfer_call e"
      using cache_branch_events [of w p f] by auto
    ultimately show ?thesis using cfg opened by blast
  qed
  have updates: "EvLogError ''cannot update uploadId cache'' \<in> set (snd (uploadFileResource w p))"
    if "EvUpdate u c n h \<in> set (snd (uploadFileResource w p))" and "w_Update_fails w u"
    for u c n h
    using that by (rule uploadFileResource_logged)
  from same logged updates fatal show ?thesis by blast
qed

theorem cache_write_errors_swallowed_witness:
  "fst (uploadFileResource write_fault_world demo_params) = Inr 7
   \<and> fst (uploadFileResource demo_world demo_params) = Inr 7
   \<and> cachePath demo_params \<noteq> []
   \<and> w_RemoveExpiredEntries_fails write_fault_world \<and> w_Remove_fails write_fault_world
   \<and> EvWarning ''cannot remove expired uploadId cache entries''
        \<in> set (snd (uploadFileResource write_fault_world demo_params))
   \<and> EvLogError ''cannot remove uploadId cache entry''
        \<in> set (snd (uploadFileResource write_fault_world demo_params))"
proof -
  have ok: "fst (uploadFileResource demo_world demo_params) = Inr 7"
    by (simp add: demo_world_def demo_params_def sound_source_def
          result_of_uploadFileResource result_of_cache_branch result_of_upload_attempts
          readSeekerSHA256_def io_Copy_def seek_start_def)
  have w: "write_fault_world
             = demo_world\<lparr>w_RemoveExpiredEntries_fails := True, w_Update_fails := (\<lambda>_. True),
                          w_Remove_fails := True\<rparr>"
    by (simp add: write_fault_world_def)
  have cfg: "cachePath demo_params \<noteq> []"
    and flags: "w_RemoveExpiredEntries_fails write_fault_world" "w_Remove_fails write_fault_world"
    by (simp_all add: demo_params_def write_fault_world_def)
  have same: "fst (uploadFileResource write_fault_world demo_params) = Inr 7"
    using cache_write_errors_swallowed [where w = demo_world and a = True and b = "\<lambda>_. True"
            and c = True and p = demo_params] ok w
    by simp
  show ?thesis
    using cache_write_errors_swallowed [where w = write_fault_world and p = demo_params]
          same ok cfg flags
    by blast
qed

subsection \<open>Resolving the digest of an image\<close>


lemma check_manifest_response_Inr:
  "check_manifest_response resp = Inr digest
     \<longleftrightarrow> resp_StatusCode resp = 200
         \<and> prefix ''registry/2.'' (Header_Get resp ''Docker-Distribution-Api-Version'')
         \<and> Header_Get resp ''Docker-Content-Digest'' = digest \<and> digest \<noteq> []"
  by (auto simp: check_manifest_response_def Let_def)

lemma check_manifest_response_Inl:
  "resp_StatusCode resp \<noteq> 200
   \<or> \<not> prefix ''registry/2.'' (Header_Get resp ''Docker-Distribution-Api-Version'')
   \<or> Header_Get resp ''Docker-Content-Digest'' = []
   \<Longrightarrow> check_manifest_response resp
       = Inl (if resp_StatusCode resp \<noteq> 200 then CannotGetInformation (resp_StatusCode resp)
              else if \<not> prefix ''registry/2.''
                          (Header_Get resp ''Docker-Distribution-Api-Version'')
              then IncompatibleRegistryVersion
                     (Header_Get resp ''Docker-Distribution-Api-Version'')
              else NoDigestInResponse)"
  by (auto simp: check_manifest_response_def Let_def)

lemma imageDigestForReference_first_answer:
  assumes "\<not> d_http_Get_fails d (registryEndpointForReference r)"
    and "referenceTagOrDigest r = Inr t"
    and "d_Do d 0 (registryEndpointForReference r @ ref_path r @ ''/manifests/'' @ t) = Some resp"
  shows "imageDigestForReference d r
           = (case check_manifest_response resp of
                Inl e \<Rightarrow>
                  (Inl e, [EvHttpGet (registryEndpointForReference r),
                           EvDockerRegistryDo ''HEAD''
                             (registryEndpointForReference r @ ref_path r @ ''/manifests/'' @ t)])
              | Inr digest \<Rightarrow>
                  (fst (verify_digest d r (registryEndpointForReference r) (ref_path r) digest),
                   [EvHttpGet (registryEndpointForReference r),
                    EvDockerRegistryDo ''HEAD''
                      (registryEndpointForReference r @ ref_path r @ ''/manifests/'' @ t)]
                   @ snd (verify_digest d r (registryEndpointForReference r) (ref_path r)
                            digest)))"
  using assms
  by (simp add: imageDigestForReference_def registryAuthorizer_def dockerRegistryDo_def Let_def
           split: sum.splits prod.splits)

text \<open>
  Claim C4: when the answer to the manifest request has a status other than 200, or its
  API version header does not start with registry/2., or its digest header is empty or
  absent, the resolution returns an error and no digest, and the request is the only one
  sent to the manifest endpoint: nothing is retried.
\<close>

theorem invalid_manifest_response_is_fatal:
  assumes "\<not> d_http_Get_fails d (registryEndpointForReference r)"
    and "referenceTagOrDigest r = Inr t"
    and "d_Do d 0 (registryEndpointForReference r @ ref_path r @ ''/manifests/'' @ t) = Some resp"
    and "resp_StatusCode resp \<noteq> 200
         \<or> \<not> prefix ''registry/2.'' (Header_Get resp ''Docker-Distribution-Api-Version'')
         \<or> Header_Get resp ''Docker-Content-Digest'' = []"
  shows "imageDigestForReference d r
           = (Inl (if resp_StatusCode resp \<noteq> 200
                   then CannotGetInformation (resp_StatusCode resp)
                   else if \<not> prefix ''registry/2.''
                               (Header_Get resp ''Docker-Distribution-Api-Version'')
                   then IncompatibleRegistryVersion
                          (Header_Get resp ''Docker-Distribution-Api-Version'')
                   else NoDigestInResponse),
              [EvHttpGet (registryEndpointForReference r),
               EvDockerRegistryDo ''HEAD''
                 (registryEndpointForReference r @ ref_path r @ ''/manifests/'' @ t)])"
  using imageDigestForReference_first_answer [OF assms(1-3)]
        check_manifest_response_Inl [OF assms(4)]
  by simp

lemmas demo_docker_defs = demo_docker_def silent_docker_def tagged_ref_def canonical_ref_def
  pinned_ref_def manifest_response_def referenceTagOrDigest_def TagNameOnly_def
  registryEndpointForReference_def Header_Get_def

theorem invalid_manifest_response_is_fatal_witness:
  "imageDigestForReference silent_docker tagged_ref
     = (Inl NoDigestInResponse,
        [EvHttpGet ''https://registry-1.docker.io/v2/'',
         EvDockerRegistryDo ''HEAD''
           ''https://registry-1.docker.io/v2/library/app/manifests/v1''])"
  using invalid_manifest_response_is_fatal [of silent_docker tagged_ref "''v1''"
          "manifest_response []"]
  by (simp add: demo_docker_defs)

text \<open>
  Claim C10: for a reference that carries a digest, once the answer to the manifest request
  has status 200, a version header of a registry of version 2 and a digest header that is
  not empty, the resolution returns the digest of the reference, whatever the digest
  header holds, after that single request.
\<close>

theorem canonical_reference_digest_returned:
  assumes "ref_digest r = Some refDigest"
    and "\<not> d_http_Get_fails d (registryEndpointForReference r)"
    and "referenceTagOrDigest r = Inr t"
    and "d_Do d 0 (registryEndpointForReference r @ ref_path r @ ''/manifests/'' @ t) = Some resp"
    and "resp_StatusCode resp = 200"
    and "prefix ''registry/2.'' (Header_Get resp ''Docker-Distribution-Api-Version'')"
    and "Header_Get resp ''Docker-Content-Digest'' \<noteq> []"
  shows "imageDigestForReference d r
           = (Inr refDigest,
              [EvHttpGet (registryEndpointForReference r),
               EvDockerRegistryDo ''HEAD''
                 (registryEndpointForReference r @ ref_path r @ ''/manifests/'' @ t)])"
proof -
  have "check_manifest_response resp = Inr (Header_Get resp ''Docker-Content-Digest'')"
    using assms(5-7) by (simp add: check_manifest_response_Inr)
  then show ?thesis
    using imageDigestForReference_first_answer [OF assms(2-4)] assms(1)
    by (simp add: verify_digest_def)
qed

theorem canonical_reference_digest_returned_witness:
  "Header_Get (manifest_response ''sha256:aaa'') ''Docker-Content-Digest'' = ''sha256:aaa''
   \<and> imageDigestForReference demo_docker pinned_ref
     = (Inr ''sha256:ccc'',
        [EvHttpGet ''https://registry-1.docker.io/v2/'',
         EvDockerRegistryDo ''HEAD''
           ''https://registry-1.docker.io/v2/library/app/manifests/v1''])"
  using canonical_reference_digest_returned [where r = pinned_ref
          and refDigest = "''sha256:ccc''" and d = demo_docker and t = "''v1''"
          and resp = "manifest_response ''sha256:aaa''"]
  by (simp add: demo_docker_defs)

lemma verify_digest_tag:
  "ref_digest r = None \<Longrightarrow>
   verify_digest d r endpoint path digest
     = (case d_Do d 1 (endpoint @ path @ ''/manifests/'' @ digest) of
          None \<Rightarrow> Inl RegistryRequestFailed
        | Some resp \<Rightarrow>
            if resp_StatusCode resp \<noteq> 200
            then Inl (CannotVerifyImageDigest (resp_StatusCode resp))
            else Inr digest,
        [EvDockerRegistryDo ''HEAD'' (endpoint @ path @ ''/manifests/'' @ digest)])"
  by (simp add: verify_digest_def dockerRegistryDo_def split: option.splits)

lemma heads_of_imageDigestForReference:
  "ref_digest r \<noteq> None \<Longrightarrow>
   length (filter is_head_request (snd (imageDigestForReference d r))) \<le> Suc 0"
  by (auto simp: imageDigestForReference_def registryAuthorizer_def dockerRegistryDo_def
                 verify_digest_def Let_def
           split: sum.splits prod.splits option.splits)

text \<open>
  Claim C2, as stated: for a reference by tag, the resolution succeeds only if the two
  answers report identical digests. It does not compare them: here the answer to the
  second request reports the digest bbb, and the resolution returns the digest aaa of the
  first answer.
\<close>

theorem second_digest_ignored_counterexample:
  "fst (imageDigestForReference demo_docker tagged_ref) = Inr ''sha256:aaa''
   \<and> d_Do demo_docker 1 ''https://registry-1.docker.io/v2/library/app/manifests/sha256:aaa''
       = Some (manifest_response ''sha256:bbb'')
   \<and> Header_Get (manifest_response ''sha256:bbb'') ''Docker-Content-Digest'' = ''sha256:bbb''"
  by (simp add: imageDigestForReference_def registryAuthorizer_def dockerRegistryDo_def
        check_manifest_response_def verify_digest_def demo_docker_defs)

text \<open>
  Claim C2, amended: for a reference without a digest, the resolution returns a digest
  exactly when the answer to the first request has status 200, a version header of a
  registry of version 2 and that digest, not empty, in its digest header, and the answer
  to a second request, made with that digest, has status 200; the digest header of the
  second answer is not read. For a reference that carries a digest at most one request is
  made.
\<close>

theorem tag_reference_digest_checked:
  assumes "referenceTagOrDigest r = Inr t"
  shows "(ref_digest r = None \<longrightarrow>
            (fst (imageDigestForReference d r) = Inr digest
               \<longleftrightarrow> \<not> d_http_Get_fails d (registryEndpointForReference r)
                   \<and> (\<exists>resp1 resp2.
                        d_Do d 0 (registryEndpointForReference r @ ref_path r
                                  @ ''/manifests/'' @ t) = Some resp1
                        \<and> resp_StatusCode resp1 = 200
                        \<and> prefix ''registry/2.''
                                 (Header_Get resp1 ''Docker-Distribution-Api-Version'')
                        \<and> Header_Get resp1 ''Docker-Content-Digest'' = digest
                        \<and> digest \<noteq> []
                        \<and> d_Do d 1 (registryEndpointForReference r @ ref_path r
                                    @ ''/manifests/'' @ digest) = Some resp2
                        \<and> resp_StatusCode resp2 = 200))
            \<and> (fst (imageDigestForReference d r) = Inr digest \<longrightarrow>
                 filter is_head_request (snd (imageDigestForReference d r))
                   = [EvDockerRegistryDo ''HEAD''
                        (registryEndpointForReference r @ ref_path r @ ''/manifests/'' @ t),
                      EvDockerRegistryDo ''HEAD''
                        (registryEndpointForReference r @ ref_path r @ ''/manifests/''
                         @ digest)]))
       \<and> (ref_digest r \<noteq> None \<longrightarrow>
            length (filter is_head_request (snd (imageDigestForReference d r))) \<le> 1)"
proof -
  let ?url = "registryEndpointForReference r @ ref_path r @ ''/manifests/'' @ t"
  have tag: "(fst (imageDigestForReference d r) = Inr digest
               \<longleftrightarrow> \<not> d_http_Get_fails d (registryEndpointForReference r)
                   \<and> (\<exists>resp1 resp2.
                        d_Do d 0 ?url = Some resp1
                        \<and> resp_StatusCode resp1 = 200
                        \<and> prefix ''registry/2.''
                                 (Header_Get resp1 ''Docker-Distribution-Api-Version'')
                        \<and> Header_Get resp1 ''Docker-Content-Digest'' = digest
                        \<and> digest \<noteq> []
                        \<and> d_Do d 1 (registryEndpointForReference r @ ref_path r
                                    @ ''/manifests/'' @ digest) = Some resp2
                        \<and> resp_StatusCode resp2 = 200))
            \<and> (fst (imageDigestForReference d r) = Inr digest \<longrightarrow>
                 filter is_head_request (snd (imageDigestForReference d r))
                   = [EvDockerRegistryDo ''HEAD'' ?url,
                      EvDockerRegistryDo ''HEAD''
                        (registryEndpointForReference r @ ref_path r @ ''/manifests/''
                         @ digest)])"
    if notag: "ref_digest r = None"
  proof (cases "d_http_Get_fails d (registryEndpointForReference r)")
    case True
    then show ?thesis
      by (simp add: imageDigestForReference_def registryAuthorizer_def Let_def)
  next
    case False
    note auth = this
    show ?thesis
    proof (cases "d_Do d 0 ?url")
      case None
      with auth assms show ?thesis
        by (simp add: imageDigestForReference_def registryAuthorizer_def dockerRegistryDo_def
              Let_def)
    next
      case (Some resp1)
      note first = imageDigestForReference_first_answer [OF auth assms Some]
      show ?thesis
      proof (cases "check_manifest_response resp1")
        case (Inl e)
        then have "\<not> (resp_StatusCode resp1 = 200
                       \<and> prefix ''registry/2.''
                                (Header_Get resp1 ''Docker-Distribution-Api-Version'')
                       \<and> Header_Get resp1 ''Docker-Content-Digest'' = digest \<and> digest \<noteq> [])"
          using check_manifest_response_Inr [of resp1 digest] by simp
        with Inl first Some auth show ?thesis by auto
      next
        case (Inr dg)
        then have dg: "resp_StatusCode resp1 = 200"
            "prefix ''registry/2.'' (Header_Get resp1 ''Docker-Distribution-Api-Version'')"
            "Header_Get resp1 ''Docker-Content-Digest'' = dg" "dg \<noteq> []"
          using check_manifest_response_Inr [of resp1 dg] by simp_all
        from Inr first notag
        have res: "fst (imageDigestForReference d r)
                = (case d_Do d 1 (registryEndpointForReference r @ ref_path r
                                  @ ''/manifests/'' @ dg) of
                     None \<Rightarrow> Inl RegistryRequestFailed
                   | Some resp \<Rightarrow>
                       if resp_StatusCode resp \<noteq> 200
                       then Inl (CannotVerifyImageDigest (resp_StatusCode resp))
                       else Inr dg)"
          and tr: "snd (imageDigestForReference d r)
                = [EvHttpGet (registryEndpointForReference r), EvDockerRegistryDo ''HEAD'' ?url,
                   EvDockerRegistryDo ''HEAD''
                     (registryEndpointForReference r @ ref_path r @ ''/manifests/'' @ dg)]"
          by (simp_all add: verify_digest_tag)
        show ?thesis
          using res tr dg Some auth
          by (auto split: option.splits if_splits)
      qed
    qed
  qed
  from tag heads_of_imageDigestForReference [of r d] show ?thesis by simp
qed

theorem tag_reference_digest_checked_witness:
  "fst (imageDigestForReference demo_docker tagged_ref) = Inr ''sha256:aaa''
   \<and> filter is_head_request (snd (imageDigestForReference demo_docker tagged_ref))
       = [EvDockerRegistryDo ''HEAD''
            ''https://registry-1.docker.io/v2/library/app/manifests/v1'',
          EvDockerRegistryDo ''HEAD''
            ''https://registry-1.docker.io/v2/library/app/manifests/sha256:aaa'']
   \<and> length (filter is_head_request (snd (imageDigestForReference demo_docker canonical_ref)))
       \<le> 1"
proof -
  have "fst (imageDigestForReference demo_docker tagged_ref) = Inr ''sha256:aaa''"
    by (simp add: imageDigestForReference_def registryAuthorizer_def dockerRegistryDo_def
          check_manifest_response_def verify_digest_def demo_docker_defs)
  moreover have "referenceTagOrDigest tagged_ref = Inr ''v1''"
    and "ref_digest tagged_ref = None"
    and "referenceTagOrDigest canonical_ref = Inr ''sha256:aaa''"
    and "ref_digest canonical_ref \<noteq> None"
    by (simp_all add: demo_docker_defs)
  ultimately show ?thesis
    using tag_reference_digest_checked [where r = tagged_ref and t = "''v1''"
            and digest = "''sha256:aaa''" and d = demo_docker]
          tag_reference_digest_checked [where r = canonical_ref and t = "''sha256:aaa''"
            and digest = "''sha256:aaa''" and d = demo_docker]
    by (simp add: demo_docker_defs)
qed

subsection \<open>The two ways to upload a docker resource\<close>








end
